theory Spec2Isabelle
  imports Complex_Main "HOL-Library.Multiset"
begin

section \<open>Numbers, strings and documents\<close>

text \<open>
  The quantities of the program (calories, grams) are Python numbers read from JSON.
  They are modelled as exact rationals: a sum is the exact sum, and the only rounding
  is the explicit \<^verbatim>\<open>round(x, 1)\<close> of the source. The error of binary floating
  point addition is outside this model.
\<close>

type_synonym num = rat

text \<open>
  A JSON object with numeric fields (an item of the nutrition provider, the
  \<^verbatim>\<open>nutrition\<close> dictionary of a meal log) is a map from keys to numbers.
\<close>

type_synonym doc = "string \<rightharpoonup> num"

text \<open>\<^verbatim>\<open>d.get(key, 0)\<close>\<close>

definition get0 :: "doc \<Rightarrow> string \<Rightarrow> num" where
  "get0 d key = (case d key of None \<Rightarrow> 0 | Some v \<Rightarrow> v)"

text \<open>
  \<^verbatim>\<open>sum(...)\<close> of Python: starts at 0 and adds the elements from left to right.
\<close>

definition py_sum :: "num list \<Rightarrow> num" where
  "py_sum xs = foldl (+) 0 xs"

text \<open>
  \<^verbatim>\<open>round(x, 1)\<close>: to the nearest multiple of one tenth, a tie going to the even
  multiple (Python rounds half to even).
\<close>

definition round_half_even :: "num \<Rightarrow> int" where
  "round_half_even x =
     (let f = \<lfloor>x\<rfloor>; d = x - of_int f
      in if d < 1 / 2 then f
         else if 1 / 2 < d then f + 1
         else if even f then f else f + 1)"

definition round1 :: "num \<Rightarrow> num" where
  "round1 x = of_int (round_half_even (x * 10)) / 10"

text \<open>\<^verbatim>\<open>needle in s\<close> and \<^verbatim>\<open>s.startswith(p)\<close> on strings.\<close>

definition startswith :: "string \<Rightarrow> string \<Rightarrow> bool" where
  "startswith s p = (take (length p) s = p)"

fun contains :: "string \<Rightarrow> string \<Rightarrow> bool" where
  "contains [] needle = (needle = [])"
| "contains (c # cs) needle = (startswith (c # cs) needle \<or> contains cs needle)"

text \<open>The decimal digits of a status code, as an f-string prints them.\<close>

fun str_nat :: "nat \<Rightarrow> string" where
  "str_nat n =
     (if n < 10 then [char_of (48 + n)]
      else str_nat (n div 10) @ [char_of (48 + n mod 10)])"

definition str_int :: "int \<Rightarrow> string" where
  "str_int i = (if i < 0 then CHR ''-'' # str_nat (nat (- i)) else str_nat (nat i))"

section \<open>Exceptions\<close>

text \<open>
  An exception that leaves a function of the program: its class and its message
  (\<^verbatim>\<open>str(e)\<close>), and for \<^verbatim>\<open>HTTPException\<close> the status code and the detail.
\<close>

datatype exn =
    Exception string
  | ValueError string
  | KeyError string
  | ValidationError string
  | HTTPException int string

section \<open>Nutrition Step: \<^verbatim>\<open>NutritionCalculator.calculate_nutrition\<close>\<close>

text \<open>
  What the one HTTP request of the step can come back with: \<^verbatim>\<open>httpx.TimeoutException\<close>,
  any other exception (with its message), or a response with its status code, its text
  and the \<^verbatim>\<open>items\<close> of its JSON body (\<open>None\<close> when the body has no such key).
\<close>

datatype http_reply =
    TimeoutException
  | OtherException string
  | HttpResponse int string "doc list option"

text \<open>What is raised inside the \<^verbatim>\<open>try\<close> block.\<close>

datatype raised = Timeout | Raised string

definition no_items_message :: string where
  "no_items_message =
     ''No food items recognized. Please simplify the description '' @
     ''(e.g., 'chickpea soup 300ml' instead of 'Hlalem').''"

definition timeout_message :: string where
  "timeout_message = ''CalorieNinjas API timeout. Please try again.''"

text \<open>The body of the \<^verbatim>\<open>try\<close> block, from the reply of the request on.\<close>

definition nutrition_try :: "http_reply \<Rightarrow> raised + doc" where
  "nutrition_try reply =
     (case reply of
        TimeoutException \<Rightarrow> Inl Timeout
      | OtherException msg \<Rightarrow> Inl (Raised msg)
      | HttpResponse status_code text data_items \<Rightarrow>
          if status_code \<noteq> 200 then
            Inl (Raised (''CalorieNinjas API error: '' @ str_int status_code @ '' - '' @ text))
          else
            let items = (case data_items of None \<Rightarrow> [] | Some its \<Rightarrow> its) in
            if items = [] then Inl (Raised no_items_message)
            else
              let total_calories = py_sum (map (\<lambda>item. get0 item ''calories'') items);
                  total_protein = py_sum (map (\<lambda>item. get0 item ''protein_g'') items);
                  total_carbs = py_sum (map (\<lambda>item. get0 item ''carbohydrates_total_g'') items);
                  total_fats = py_sum (map (\<lambda>item. get0 item ''fat_total_g'') items)
              in Inr [''calories'' \<mapsto> round1 total_calories,
                      ''protein'' \<mapsto> round1 total_protein,
                      ''carbs'' \<mapsto> round1 total_carbs,
                      ''fats'' \<mapsto> round1 total_fats])"

text \<open>
  The two \<^verbatim>\<open>except\<close> clauses. The bare \<^verbatim>\<open>raise\<close> passes the caught exception on
  with its message; its class plays no part later, since every handler treats all
  classes but \<^verbatim>\<open>HTTPException\<close> alike.
\<close>

definition nutrition_except :: "raised \<Rightarrow> exn" where
  "nutrition_except r =
     (case r of
        Timeout \<Rightarrow> Exception timeout_message
      | Raised msg \<Rightarrow>
          if contains msg ''No food items recognized'' then Exception msg
          else Exception (''Nutrition calculation failed: '' @ msg))"

definition nutrition_of_reply :: "http_reply \<Rightarrow> exn + doc" where
  "nutrition_of_reply reply =
     (case nutrition_try reply of
        Inl r \<Rightarrow> Inl (nutrition_except r)
      | Inr n \<Rightarrow> Inr n)"

section \<open>The world outside the program\<close>

text \<open>
  Image bytes; a timestamp is a naive UTC \<^verbatim>\<open>datetime\<close>, counted in microseconds.
\<close>

type_synonym bytes = string
type_synonym datetime = int

text \<open>
  The four values that \<^verbatim>\<open>generate_advice\<close> receives and formats into its prompt.
  The prompt is a fixed template around them, so the request stands for the prompt.
\<close>

datatype advice_request =
  AdviceRequest (arg_health_goal: string) (arg_dish_name: string)
    (arg_total_calories: num) (arg_remaining_calories: num)

text \<open>
  The calls made to the three steps, in the order they begin and end. The trace is
  what a test double of a step would record.
\<close>

datatype event =
    VisionBegin bytes
  | VisionEnd "exn + string"
  | NutritionBegin string
  | NutritionEnd "exn + doc"
  | AdvisorBegin advice_request
  | AdvisorEnd "exn + string"

text \<open>A call to a model provider raises (with a message) or returns its content.\<close>

datatype reply = Raises string | Returns string

text \<open>
  The process environment, the clock, the identifier the store gives a new document,
  and the external providers. A provider, like the clock, may answer differently from
  call to call: each is a function of the calls made so far as well as of its input.
\<close>

record externals =
  environ :: "string \<rightharpoonup> string"
  utcnow :: "event list \<Rightarrow> datetime"
  new_object_id :: "event list \<Rightarrow> string"
  vision_model :: "event list \<Rightarrow> bytes \<Rightarrow> reply"
  nutrition_api :: "event list \<Rightarrow> string \<Rightarrow> http_reply"
  groq_model :: "event list \<Rightarrow> advice_request \<Rightarrow> reply"
  openrouter_api :: "event list \<Rightarrow> string \<Rightarrow> string \<Rightarrow> advice_request \<Rightarrow> reply"

text \<open>
  A user document, and the \<^verbatim>\<open>user_profile\<close> dictionary built from it: both are read
  with \<^verbatim>\<open>.get(key, default)\<close>, so either key may be absent.
\<close>

record profile =
  health_goal :: "string option"
  daily_calorie_goal :: "int option"

text \<open>
  The dictionary \<^verbatim>\<open>process_meal\<close> returns, and the meal log document made from it.
  A stored document is read with \<^verbatim>\<open>meal.get("nutrition", {})\<close>: a document without
  the key reads as one with the empty dictionary.
\<close>

record meal_result =
  nutrition :: doc
  ai_advice :: string

record meal_log = meal_result +
  user_id :: string
  timestamp :: datetime
  dish_name :: string
  image_url :: "string option"

text \<open>
  The store (the two collections, taken to be connected) and the trace of calls. A
  timestamp is compared as it is stored.
\<close>

record world =
  users :: "string \<rightharpoonup> profile"
  meal_logs :: "meal_log list"
  trace :: "event list"

definition emit :: "event \<Rightarrow> world \<Rightarrow> world" where
  "emit e w = w\<lparr>trace := trace w @ [e]\<rparr>"

text \<open>\<^verbatim>\<open>str.strip()\<close> and \<^verbatim>\<open>str.lower()\<close>, on ASCII.\<close>

definition isspace :: "char \<Rightarrow> bool" where
  "isspace c = (c \<in> set [CHR '' '', CHR 0x09, CHR 0x0A, CHR 0x0B, CHR 0x0C, CHR 0x0D])"

definition strip :: "string \<Rightarrow> string" where
  "strip s = rev (dropWhile isspace (rev (dropWhile isspace s)))"

definition lower_char :: "char \<Rightarrow> char" where
  "lower_char c =
     (let n = (of_char c :: nat) in if 65 \<le> n \<and> n \<le> 90 then char_of (n + 32) else c)"

definition lower :: "string \<Rightarrow> string" where
  "lower s = map lower_char s"

text \<open>
  \<^verbatim>\<open>os.getenv(name)\<close> followed by \<^verbatim>\<open>if not value: raise ValueError(...)\<close>: an unset
  variable and an empty one both raise.
\<close>

definition getenv_required :: "(string \<rightharpoonup> string) \<Rightarrow> string \<Rightarrow> exn + string" where
  "getenv_required env name =
     (case env name of
        None \<Rightarrow> Inl (ValueError (name @ '' not found in environment variables''))
      | Some v \<Rightarrow>
          if v = [] then Inl (ValueError (name @ '' not found in environment variables''))
          else Inr v)"

text \<open>\<^verbatim>\<open>os.getenv(name, default)\<close>\<close>

definition getenv_default :: "(string \<rightharpoonup> string) \<Rightarrow> string \<Rightarrow> string \<Rightarrow> string" where
  "getenv_default env name dflt = (case env name of None \<Rightarrow> dflt | Some v \<Rightarrow> v)"

section \<open>Vision Step: \<^verbatim>\<open>VisionAgent\<close>\<close>

definition VisionAgent_init :: "(string \<rightharpoonup> string) \<Rightarrow> exn + string" where
  "VisionAgent_init env = getenv_required env ''GOOGLE_API_KEY''"

definition VisionAgent_analyze_image ::
  "externals \<Rightarrow> bytes \<Rightarrow> world \<Rightarrow> (exn + string) \<times> world" where
  "VisionAgent_analyze_image E image_bytes w =
     (let w1 = emit (VisionBegin image_bytes) w;
          r = (case vision_model E (trace w) image_bytes of
                 Raises msg \<Rightarrow> Inl (Exception (''Vision Agent failed: '' @ msg))
               | Returns content \<Rightarrow> Inr (strip content))
      in (r, emit (VisionEnd r) w1))"

section \<open>Nutrition Step, with its request\<close>

definition NutritionCalculator_init :: "(string \<rightharpoonup> string) \<Rightarrow> exn + string" where
  "NutritionCalculator_init env = getenv_required env ''CALORIENINJAS_API_KEY''"

definition calculate_nutrition ::
  "externals \<Rightarrow> string \<Rightarrow> world \<Rightarrow> (exn + doc) \<times> world" where
  "calculate_nutrition E food_description w =
     (let w1 = emit (NutritionBegin food_description) w;
          r = nutrition_of_reply (nutrition_api E (trace w) food_description)
      in (r, emit (NutritionEnd r) w1))"

section \<open>Advisor Step: \<^verbatim>\<open>AdvisorAgent\<close>\<close>

record advisor_agent =
  provider :: string
  api_key :: string
  model_name :: string

definition AdvisorAgent_init :: "(string \<rightharpoonup> string) \<Rightarrow> exn + advisor_agent" where
  "AdvisorAgent_init env =
     (let provider = lower (getenv_default env ''ADVISOR_PROVIDER'' ''groq'') in
      if provider = ''openrouter'' then
        (case getenv_required env ''OPENROUTER_API_KEY'' of
           Inl e \<Rightarrow> Inl e
         | Inr k \<Rightarrow>
             Inr \<lparr>provider = provider, api_key = k,
                  model_name = getenv_default env ''OPENROUTER_MODEL''
                                 ''anthropic/claude-3.5-sonnet''\<rparr>)
      else
        (case getenv_required env ''GROQ_API_KEY'' of
           Inl e \<Rightarrow> Inl e
         | Inr k \<Rightarrow>
             Inr \<lparr>provider = provider, api_key = k, model_name = ''llama3-70b-8192''\<rparr>))"

definition generate_advice ::
  "advisor_agent \<Rightarrow> externals \<Rightarrow> advice_request \<Rightarrow> world \<Rightarrow> (exn + string) \<times> world" where
  "generate_advice agent E request w =
     (let w1 = emit (AdvisorBegin request) w;
          answer =
            (if provider agent = ''openrouter''
             then openrouter_api E (trace w) (api_key agent) (model_name agent) request
             else groq_model E (trace w) request);
          r = (case answer of
                 Raises msg \<Rightarrow> Inl (Exception (''Advisor Agent failed: '' @ msg))
               | Returns advice \<Rightarrow> Inr (strip advice))
      in (r, emit (AdvisorEnd r) w1))"

section \<open>The orchestrator: \<^verbatim>\<open>AICouncil\<close>\<close>

record ai_council =
  vision_agent :: string
  nutrition_calculator :: string
  advisor_agent :: advisor_agent

definition get_ai_council :: "(string \<rightharpoonup> string) \<Rightarrow> exn + ai_council" where
  "get_ai_council env =
     (case VisionAgent_init env of
        Inl e \<Rightarrow> Inl e
      | Inr vk \<Rightarrow>
          (case NutritionCalculator_init env of
             Inl e \<Rightarrow> Inl e
           | Inr nk \<Rightarrow>
               (case AdvisorAgent_init env of
                  Inl e \<Rightarrow> Inl e
                | Inr a \<Rightarrow>
                    Inr \<lparr>vision_agent = vk, nutrition_calculator = nk, advisor_agent = a\<rparr>)))"

definition AICouncil_analyze_image ::
  "ai_council \<Rightarrow> externals \<Rightarrow> bytes \<Rightarrow> world \<Rightarrow> (exn + string) \<times> world" where
  "AICouncil_analyze_image council E image_bytes w = VisionAgent_analyze_image E image_bytes w"

text \<open>
  \<^verbatim>\<open>nutrition["calories"]\<close> raises \<^verbatim>\<open>KeyError\<close> on a dictionary without the key.
\<close>

definition process_meal ::
  "ai_council \<Rightarrow> externals \<Rightarrow> string \<Rightarrow> profile \<Rightarrow> num \<Rightarrow> world
     \<Rightarrow> (exn + meal_result) \<times> world" where
  "process_meal council E verified_text user_profile current_daily_total w =
     (case calculate_nutrition E verified_text w of
        (Inl e, w1) \<Rightarrow> (Inl e, w1)
      | (Inr nutr, w1) \<Rightarrow>
          (case nutr ''calories'' of
             None \<Rightarrow> (Inl (KeyError ''calories''), w1)
           | Some meal_calories \<Rightarrow>
               let daily_goal =
                     (case daily_calorie_goal user_profile of None \<Rightarrow> 2500 | Some g \<Rightarrow> g);
                   new_total = current_daily_total + meal_calories;
                   remaining = of_int daily_goal - new_total;
                   goal = (case health_goal user_profile of
                             None \<Rightarrow> ''maintain'' | Some h \<Rightarrow> h)
               in (case generate_advice (advisor_agent council) E
                          (AdviceRequest goal verified_text meal_calories remaining) w1 of
                     (Inl e, w2) \<Rightarrow> (Inl e, w2)
                   | (Inr advice, w2) \<Rightarrow>
                       (Inr \<lparr>nutrition = nutr, ai_advice = advice\<rparr>, w2))))"

section \<open>The request handlers\<close>

text \<open>
  \<^verbatim>\<open>ObjectId(s)\<close> of the bson library accepts a string of 24 hexadecimal digits and
  raises on any other; two identifiers are equal when their digits are, whatever the
  case of the letters.
\<close>

definition ObjectId :: "string \<Rightarrow> string option" where
  "ObjectId s =
     (if length s = 24 \<and> list_all (\<lambda>c. c \<in> set ''0123456789abcdefABCDEF'') s
      then Some (lower s) else None)"

text \<open>
  \<^verbatim>\<open>NutritionData(**d)\<close>: the four fields are required and each is validated with
  \<^verbatim>\<open>ge=0\<close>; other keys are ignored. The message stands for the text pydantic prints.
\<close>

definition NutritionData :: "doc \<Rightarrow> exn + doc" where
  "NutritionData d =
     (if list_all (\<lambda>k. case d k of None \<Rightarrow> False | Some v \<Rightarrow> 0 \<le> v)
           [''calories'', ''protein'', ''carbs'', ''fats'']
      then Inr [''calories'' \<mapsto> get0 d ''calories'', ''protein'' \<mapsto> get0 d ''protein'',
                ''carbs'' \<mapsto> get0 d ''carbs'', ''fats'' \<mapsto> get0 d ''fats'']
      else Inl (ValidationError ''validation error for NutritionData''))"

text \<open>\<^verbatim>\<open>str(e)\<close>\<close>

fun str_exn :: "exn \<Rightarrow> string" where
  "str_exn (Exception msg) = msg"
| "str_exn (ValueError msg) = msg"
| "str_exn (KeyError key) = [CHR 0x27] @ key @ [CHR 0x27]"
| "str_exn (ValidationError msg) = msg"
| "str_exn (HTTPException status detail) = str_int status @ '': '' @ detail"

text \<open>
  The outer \<^verbatim>\<open>except\<close> clauses of a handler: an \<^verbatim>\<open>HTTPException\<close> passes, anything
  else becomes a 500 whose detail is the given prefix and the message.
\<close>

fun http_except :: "string \<Rightarrow> exn \<Rightarrow> exn" where
  "http_except prefix (HTTPException status detail) = HTTPException status detail"
| "http_except prefix e = HTTPException 500 (prefix @ str_exn e)"

text \<open>\<^verbatim>\<open>POST /analyze\<close>, on the uploaded \<^verbatim>\<open>image\<close>.\<close>

record upload_file =
  content_type :: "string option"
  content :: bytes

definition analyze_image_try ::
  "externals \<Rightarrow> upload_file \<Rightarrow> world \<Rightarrow> (exn + string) \<times> world" where
  "analyze_image_try E upload w =
     (case content_type upload of
        None \<Rightarrow>
          (Inl (Exception (CHR 0x27 # ''NoneType' object has no attribute 'startswith'' @ [CHR 0x27])), w)
      | Some ct \<Rightarrow>
          if \<not> startswith ct ''image/'' then
            (Inl (HTTPException 400
                    ''Invalid file type. Only images (JPEG/PNG) are supported.''), w)
          else
            let image_bytes = content upload in
            if length image_bytes > 10 * 1024 * 1024 then
              (Inl (HTTPException 400 ''Image too large (max 10MB).''), w)
            else
              (case get_ai_council (environ E) of
                 Inl e \<Rightarrow> (Inl e, w)
               | Inr council \<Rightarrow> AICouncil_analyze_image council E image_bytes w))"

definition analyze_image ::
  "externals \<Rightarrow> upload_file \<Rightarrow> world \<Rightarrow> (exn + string) \<times> world" where
  "analyze_image E upload w =
     (case analyze_image_try E upload w of
        (Inl e, w') \<Rightarrow> (Inl (http_except ''Image analysis failed: '' e), w')
      | (Inr detected_text, w') \<Rightarrow> (Inr detected_text, w'))"

text \<open>
  \<^verbatim>\<open>datetime.utcnow().replace(hour=0, minute=0, second=0, microsecond=0)\<close>: a naive
  UTC day has \<open>86400000000\<close> microseconds.
\<close>

definition today_start :: "datetime \<Rightarrow> datetime" where
  "today_start now = now - now mod 86400000000"

text \<open>
  \<^verbatim>\<open>find({"user_id": user_object_id, "timestamp": {"$gte": today_start}})\<close>
\<close>

definition find_meals :: "world \<Rightarrow> string \<Rightarrow> datetime \<Rightarrow> meal_log list" where
  "find_meals w user_object_id start =
     filter (\<lambda>meal. user_id meal = user_object_id \<and> start \<le> timestamp meal) (meal_logs w)"

text \<open>\<^verbatim>\<open>POST /log-meal\<close>\<close>

datatype log_meal_response = LogMealResponse string string doc string datetime

definition log_meal_try ::
  "externals \<Rightarrow> string \<Rightarrow> string \<Rightarrow> string option \<Rightarrow> world
     \<Rightarrow> (exn + log_meal_response) \<times> world" where
  "log_meal_try E request_user_id verified_text request_image_url w =
     (case ObjectId request_user_id of
        None \<Rightarrow> (Inl (HTTPException 400 ''Invalid user_id format.''), w)
      | Some user_object_id \<Rightarrow>
          (case users w user_object_id of
             None \<Rightarrow> (Inl (HTTPException 404 ''User not found.''), w)
           | Some user \<Rightarrow>
               let start = today_start (utcnow E (trace w));
                   today_meals = find_meals w user_object_id start;
                   current_daily_total =
                     foldl (\<lambda>total meal. total + get0 (nutrition meal) ''calories'') 0 today_meals
               in (case get_ai_council (environ E) of
                     Inl e \<Rightarrow> (Inl e, w)
                   | Inr council \<Rightarrow>
                       (case process_meal council E verified_text
                               \<lparr>health_goal =
                                  Some (case health_goal user of
                                          None \<Rightarrow> ''maintain'' | Some h \<Rightarrow> h),
                                daily_calorie_goal =
                                  Some (case daily_calorie_goal user of
                                          None \<Rightarrow> 2500 | Some g \<Rightarrow> g)\<rparr>
                               current_daily_total w of
                          (Inl e, w1) \<Rightarrow> (Inl e, w1)
                        | (Inr result, w1) \<Rightarrow>
                            let meal =
                                  \<lparr>nutrition = nutrition result,
                                   ai_advice = ai_advice result,
                                   user_id = user_object_id,
                                   timestamp = utcnow E (trace w1),
                                   dish_name = verified_text,
                                   image_url = request_image_url\<rparr>;
                                inserted_id = new_object_id E (trace w1);
                                w2 = w1\<lparr>meal_logs := meal_logs w1 @ [meal]\<rparr>
                            in (case NutritionData (nutrition result) of
                                  Inl e \<Rightarrow> (Inl e, w2)
                                | Inr data \<Rightarrow>
                                    (Inr (LogMealResponse inserted_id verified_text data
                                           (ai_advice result) (timestamp meal)), w2))))))"

definition log_meal ::
  "externals \<Rightarrow> string \<Rightarrow> string \<Rightarrow> string option \<Rightarrow> world
     \<Rightarrow> (exn + log_meal_response) \<times> world" where
  "log_meal E request_user_id verified_text request_image_url w =
     (case log_meal_try E request_user_id verified_text request_image_url w of
        (Inl e, w') \<Rightarrow> (Inl (http_except ''Meal logging failed: '' e), w')
      | (Inr response, w') \<Rightarrow> (Inr response, w'))"





section \<open>Reading the trace\<close>

text \<open>The events a handler added to the trace, and the requests the Advisor Step received.\<close>

definition events_since :: "world \<Rightarrow> world \<Rightarrow> event list" where
  "events_since w w' = drop (length (trace w)) (trace w')"

fun advisor_requests :: "event list \<Rightarrow> advice_request list" where
  "advisor_requests [] = []"
| "advisor_requests (AdvisorBegin request # es) = request # advisor_requests es"
| "advisor_requests (e # es) = advisor_requests es"

text \<open>One of the two steps of \<open>process_meal\<close> ended with the exception \<open>e\<close>.\<close>

definition step_failed :: "exn \<Rightarrow> event list \<Rightarrow> bool" where
  "step_failed e evs = (NutritionEnd (Inl e) \<in> set evs \<or> AdvisorEnd (Inl e) \<in> set evs)"

text \<open>
  What \<open>generate_advice\<close> returns, as a function of the calls made before it, and
  the request \<open>process_meal\<close> builds from a summary with \<open>cal\<close> calories.
\<close>

definition advice_of_reply :: "reply \<Rightarrow> exn + string" where
  "advice_of_reply answer =
     (case answer of
        Raises msg \<Rightarrow> Inl (Exception (''Advisor Agent failed: '' @ msg))
      | Returns advice \<Rightarrow> Inr (strip advice))"

definition advisor_result ::
  "advisor_agent \<Rightarrow> externals \<Rightarrow> event list \<Rightarrow> advice_request \<Rightarrow> exn + string" where
  "advisor_result agent E history request =
     advice_of_reply
       (if provider agent = ''openrouter''
        then openrouter_api E history (api_key agent) (model_name agent) request
        else groq_model E history request)"

definition advice_request_of :: "string \<Rightarrow> profile \<Rightarrow> num \<Rightarrow> num \<Rightarrow> advice_request" where
  "advice_request_of text user_profile current_total cal =
     AdviceRequest
       (case health_goal user_profile of None \<Rightarrow> ''maintain'' | Some h \<Rightarrow> h)
       text cal
       (of_int (case daily_calorie_goal user_profile of None \<Rightarrow> 2500 | Some g \<Rightarrow> g)
          - (current_total + cal))"

text \<open>
  Non-negativity of the four fields of a summary, of the four fields that the handler
  reads from an item of the provider, and of every item of a reply.
\<close>

definition summary_nonneg :: "doc \<Rightarrow> bool" where
  "summary_nonneg d =
     list_all (\<lambda>key. 0 \<le> get0 d key) [''calories'', ''protein'', ''carbs'', ''fats'']"

definition item_nonneg :: "doc \<Rightarrow> bool" where
  "item_nonneg item =
     list_all (\<lambda>key. 0 \<le> get0 item key)
       [''calories'', ''protein_g'', ''carbohydrates_total_g'', ''fat_total_g'']"

definition reply_nonneg :: "http_reply \<Rightarrow> bool" where
  "reply_nonneg answer =
     (case answer of
        HttpResponse status text (Some items) \<Rightarrow> list_all item_nonneg items
      | _ \<Rightarrow> True)"

definition store_nonneg :: "world \<Rightarrow> bool" where
  "store_nonneg w = list_all (\<lambda>meal. summary_nonneg (nutrition meal)) (meal_logs w)"

section \<open>Example inputs\<close>

text \<open>
  A user with a goal of 2000 calories who wants to lose weight and a user without goals.
  The clock starts at 2026-01-18 17:30:00 UTC and advances with every call, so the day
  begins at \<open>1768694400000000\<close>. The first user has three meals on that day, the first
  of them at the very start of the day, and one meal a microsecond earlier; the second
  user has one meal on that day. The providers give fixed answers.
\<close>

definition stored_meal :: "string \<Rightarrow> datetime \<Rightarrow> num \<Rightarrow> num \<Rightarrow> num \<Rightarrow> num \<Rightarrow> meal_log" where
  "stored_meal user time cal prot carb fat =
     \<lparr>nutrition = [''calories'' \<mapsto> cal, ''protein'' \<mapsto> prot, ''carbs'' \<mapsto> carb, ''fats'' \<mapsto> fat],
      ai_advice = ''Drink water.'',
      user_id = user, timestamp = time, dish_name = ''Lablabi'', image_url = None\<rparr>"

definition example_meals :: "meal_log list" where
  "example_meals =
     [stored_meal ''507f1f77bcf86cd799439011'' 1768694399999999 500 30 40 20,
      stored_meal ''507f1f77bcf86cd799439011'' 1768694400000000 450 25 50 15,
      stored_meal ''507f1f77bcf86cd799439022'' 1768720000000000 900 50 90 30,
      stored_meal ''507f1f77bcf86cd799439011'' 1768723200000000 320 18 45 8,
      stored_meal ''507f1f77bcf86cd799439011'' 1768739400000000 680 37 65 22]"

definition example_world :: world where
  "example_world =
     \<lparr>users = [''507f1f77bcf86cd799439011'' \<mapsto>
                 \<lparr>health_goal = Some ''lose_weight'', daily_calorie_goal = Some 2000\<rparr>,
               ''507f1f77bcf86cd799439022'' \<mapsto>
                 \<lparr>health_goal = None, daily_calorie_goal = None\<rparr>],
      meal_logs = example_meals,
      trace = []\<rparr>"

definition example_externals :: "http_reply \<Rightarrow> reply \<Rightarrow> externals" where
  "example_externals nutrition_answer advisor_answer =
     \<lparr>environ = [''GOOGLE_API_KEY'' \<mapsto> ''g'', ''CALORIENINJAS_API_KEY'' \<mapsto> ''c'',
                 ''GROQ_API_KEY'' \<mapsto> ''q''],
      utcnow = (\<lambda>history. 1768757400000000 + int (length history)),
      new_object_id = (\<lambda>history. ''507f191e810c19729de860ea''),
      vision_model = (\<lambda>history image_bytes. Returns ''Bowl of Lablabi, approx 400g''),
      nutrition_api = (\<lambda>history query. nutrition_answer),
      groq_model = (\<lambda>history request. advisor_answer),
      openrouter_api = (\<lambda>history key model request. advisor_answer)\<rparr>"

definition example_profile :: profile where
  "example_profile = \<lparr>health_goal = Some ''lose_weight'', daily_calorie_goal = Some 2000\<rparr>"

definition example_council :: ai_council where
  "example_council =
     \<lparr>vision_agent = ''g'', nutrition_calculator = ''c'',
      advisor_agent = \<lparr>provider = ''groq'', api_key = ''q'', model_name = ''llama3-70b-8192''\<rparr>\<rparr>"

definition fish :: doc where
  "fish = [''calories'' \<mapsto> 1121 / 4, ''protein_g'' \<mapsto> 38, ''fat_total_g'' \<mapsto> 23 / 2]"

definition salad :: doc where
  "salad = [''calories'' \<mapsto> 70, ''protein_g'' \<mapsto> 2, ''carbohydrates_total_g'' \<mapsto> 10,
            ''fat_total_g'' \<mapsto> 1 / 2]"

definition example_summary :: doc where
  "example_summary =
     [''calories'' \<mapsto> 1751 / 5, ''protein'' \<mapsto> 40, ''carbs'' \<mapsto> 10, ''fats'' \<mapsto> 12]"

text \<open>A provider item with a negative number of calories.\<close>

definition refund :: doc where
  "refund = [''calories'' \<mapsto> - 50, ''protein_g'' \<mapsto> 5]"


text \<open>An uploaded image of four bytes.\<close>

definition example_upload :: upload_file where
  "example_upload = \<lparr>content_type = Some ''image/jpeg'', content = ''JFIF''\<rparr>"

section \<open>The Nutrition Step sums all items\<close>

lemma foldl_plus_sum_list: "foldl (+) a xs = a + sum_list (xs :: num list)"
  by (induction xs arbitrary: a) (simp_all add: add.assoc)

lemma py_sum_sum_list: "py_sum xs = sum_list xs"
  by (simp add: py_sum_def foldl_plus_sum_list)


lemma nutrition_of_reply_items:
  "items \<noteq> [] \<Longrightarrow>
   nutrition_of_reply (HttpResponse 200 text (Some items)) =
     Inr [''calories'' \<mapsto> round1 (py_sum (map (\<lambda>item. get0 item ''calories'') items)),
          ''protein'' \<mapsto> round1 (py_sum (map (\<lambda>item. get0 item ''protein_g'') items)),
          ''carbs'' \<mapsto> round1 (py_sum (map (\<lambda>item. get0 item ''carbohydrates_total_g'') items)),
          ''fats'' \<mapsto> round1 (py_sum (map (\<lambda>item. get0 item ''fat_total_g'') items))]"
  by (simp add: nutrition_of_reply_def nutrition_try_def)



lemma round1_examples:
  "round1 (1401 / 4) = 1751 / 5" "round1 40 = 40" "round1 10 = 10" "round1 12 = 12"
  by code_simp+


section \<open>The steps, by the reply of their provider\<close>





lemma nutrition_of_reply_timeout:
  "nutrition_of_reply TimeoutException = Inl (Exception timeout_message)"
  by (simp add: nutrition_of_reply_def nutrition_try_def nutrition_except_def)


lemma calculate_nutrition_eq:
  "calculate_nutrition E q w =
     (nutrition_of_reply (nutrition_api E (trace w) q),
      w\<lparr>trace := trace w @ [NutritionBegin q,
                              NutritionEnd (nutrition_of_reply (nutrition_api E (trace w) q))]\<rparr>)"
  by (simp add: calculate_nutrition_def emit_def Let_def)

lemma generate_advice_eq:
  "generate_advice agent E request w =
     (advisor_result agent E (trace w) request,
      w\<lparr>trace := trace w @
         [AdvisorBegin request, AdvisorEnd (advisor_result agent E (trace w) request)]\<rparr>)"
  by (simp add: generate_advice_def emit_def Let_def advice_of_reply_def advisor_result_def)

lemma nutrition_of_reply_calories:
  "nutrition_of_reply reply = Inr n \<Longrightarrow> \<exists>c. n ''calories'' = Some c"
  by (auto simp add: nutrition_of_reply_def nutrition_try_def Let_def
        split: http_reply.splits if_splits sum.splits)

lemma process_meal_nutrition_fails:
  assumes "nutrition_of_reply (nutrition_api E (trace w) text) = Inl e"
  shows "process_meal council E text user_profile current_total w =
           (Inl e, w\<lparr>trace := trace w @ [NutritionBegin text, NutritionEnd (Inl e)]\<rparr>)"
  using assms by (simp add: process_meal_def calculate_nutrition_eq)

lemma process_meal_nutrition_ok:
  assumes "nutrition_of_reply (nutrition_api E (trace w) text) = Inr n"
    and "n ''calories'' = Some cal"
    and "request = advice_request_of text user_profile current_total cal"
    and "r = advisor_result (advisor_agent council) E
               (trace w @ [NutritionBegin text, NutritionEnd (Inr n)]) request"
  shows "process_meal council E text user_profile current_total w =
           ((case r of Inl e \<Rightarrow> Inl e | Inr advice \<Rightarrow> Inr \<lparr>nutrition = n, ai_advice = advice\<rparr>),
            w\<lparr>trace := trace w @
               [NutritionBegin text, NutritionEnd (Inr n), AdvisorBegin request, AdvisorEnd r]\<rparr>)"
  using assms
  by (simp add: process_meal_def calculate_nutrition_eq generate_advice_eq Let_def
        advice_request_of_def split: sum.splits)

section \<open>The order of the two steps\<close>

lemma events_since_extend: "events_since w (w\<lparr>trace := trace w @ evs\<rparr>) = evs"
  by (simp add: events_since_def)

text \<open>
  C3. When the Nutrition Step fails, \<open>process_meal\<close> fails with the same exception
  and the Advisor Step receives no request. Whenever the Advisor Step begins, the
  events before it are the beginning of the Nutrition Step and its successful end.
\<close>

theorem process_meal_advisor_after_nutrition:
  "(\<forall>e. fst (calculate_nutrition E text w) = Inl e \<longrightarrow>
        fst (process_meal council E text user_profile current_total w) = Inl e \<and>
        advisor_requests
          (events_since w (snd (process_meal council E text user_profile current_total w))) = [])
   \<and> (\<forall>before request after.
        events_since w (snd (process_meal council E text user_profile current_total w))
          = before @ AdvisorBegin request # after \<longrightarrow>
        (\<exists>n. fst (calculate_nutrition E text w) = Inr n \<and>
             before = [NutritionBegin text, NutritionEnd (Inr n)]))"
proof (cases "nutrition_of_reply (nutrition_api E (trace w) text)")
  case (Inl e)
  note p = process_meal_nutrition_fails [OF Inl, of council user_profile current_total]
  have ev: "events_since w (snd (process_meal council E text user_profile current_total w))
              = [NutritionBegin text, NutritionEnd (Inl e)]"
    by (simp add: p events_since_def)
  have "\<And>before request after.
          [NutritionBegin text, NutritionEnd (Inl e)] \<noteq> before @ AdvisorBegin request # after"
    by (simp add: Cons_eq_append_conv)
  then show ?thesis
    using Inl by (simp add: p events_since_extend calculate_nutrition_eq)
next
  case (Inr n)
  from nutrition_of_reply_calories [OF Inr] obtain cal where c: "n ''calories'' = Some cal" ..
  note p = process_meal_nutrition_ok [OF Inr c refl refl, of council user_profile current_total]
  have ev: "events_since w (snd (process_meal council E text user_profile current_total w))
              = [NutritionBegin text, NutritionEnd (Inr n),
                 AdvisorBegin (advice_request_of text user_profile current_total cal),
                 AdvisorEnd (advisor_result (advisor_agent council) E
                   (trace w @ [NutritionBegin text, NutritionEnd (Inr n)])
                   (advice_request_of text user_profile current_total cal))]"
    by (simp add: p events_since_def)
  have "\<And>before request after.
          [NutritionBegin text, NutritionEnd (Inr n),
                 AdvisorBegin (advice_request_of text user_profile current_total cal),
                 AdvisorEnd (advisor_result (advisor_agent council) E
                   (trace w @ [NutritionBegin text, NutritionEnd (Inr n)])
                   (advice_request_of text user_profile current_total cal))]
             = before @ AdvisorBegin request # after
          \<Longrightarrow> before = [NutritionBegin text, NutritionEnd (Inr n)]"
    by (auto simp add: Cons_eq_append_conv)
  then show ?thesis
    using Inr by (simp add: p events_since_extend calculate_nutrition_eq)
qed

lemma nutrition_of_reply_example:
  "nutrition_of_reply (HttpResponse 200 [] (Some [fish, salad])) = Inr example_summary"
  by (simp add: nutrition_of_reply_items py_sum_sum_list fish_def salad_def get0_def
        round1_examples example_summary_def)

lemma example_summary_calories: "example_summary ''calories'' = Some (1751 / 5)"
  by (simp add: example_summary_def)

lemma example_world_trace: "trace example_world = []"
  by (simp add: example_world_def)

lemma example_profile_fields:
  "health_goal example_profile = Some ''lose_weight''"
  "daily_calorie_goal example_profile = Some 2000"
  by (simp_all add: example_profile_def)

lemma strip_example: "strip ''Eat light tonight.'' = ''Eat light tonight.''"
  by code_simp

lemma groq_example:
  "advisor_result (advisor_agent example_council) (example_externals a (Returns ''Eat light tonight.''))
     h request = Inr ''Eat light tonight.''"
  by (simp add: advisor_result_def example_council_def example_externals_def advice_of_reply_def
        strip_example)

theorem process_meal_advisor_after_nutrition_witness:
  "fst (process_meal example_council (example_externals TimeoutException (Returns []))
          ''grilled fish with salad, 300g'' example_profile 800 example_world)
     = Inl (Exception timeout_message)
   \<and> advisor_requests
        (events_since example_world
           (snd (process_meal example_council (example_externals TimeoutException (Returns []))
                   ''grilled fish with salad, 300g'' example_profile 800 example_world))) = []
   \<and> events_since example_world
        (snd (process_meal example_council
                (example_externals (HttpResponse 200 [] (Some [fish, salad]))
                   (Returns ''Eat light tonight.''))
                ''grilled fish with salad, 300g'' example_profile 800 example_world))
       = [NutritionBegin ''grilled fish with salad, 300g'', NutritionEnd (Inr example_summary)]
         @ AdvisorBegin (AdviceRequest ''lose_weight'' ''grilled fish with salad, 300g''
                           (1751 / 5) (4249 / 5))
         # [AdvisorEnd (Inr ''Eat light tonight.'')]
   \<and> fst (calculate_nutrition
            (example_externals (HttpResponse 200 [] (Some [fish, salad]))
               (Returns ''Eat light tonight.''))
            ''grilled fish with salad, 300g'' example_world) = Inr example_summary"
proof -
  let ?T = "example_externals TimeoutException (Returns [])"
  let ?E = "example_externals (HttpResponse 200 [] (Some [fish, salad]))
              (Returns ''Eat light tonight.'')"
  let ?q = "''grilled fish with salad, 300g''"
  have f: "fst (calculate_nutrition ?T ?q example_world) = Inl (Exception timeout_message)"
    by (simp add: calculate_nutrition_eq example_externals_def nutrition_of_reply_timeout)
  have n: "nutrition_of_reply (nutrition_api ?E (trace example_world) ?q) = Inr example_summary"
    by (simp add: example_externals_def nutrition_of_reply_example)
  have ev: "events_since example_world
        (snd (process_meal example_council ?E ?q example_profile 800 example_world))
       = [NutritionBegin ?q, NutritionEnd (Inr example_summary)]
         @ AdvisorBegin (AdviceRequest ''lose_weight'' ?q (1751 / 5) (4249 / 5))
         # [AdvisorEnd (Inr ''Eat light tonight.'')]"
    by (simp add: process_meal_nutrition_ok [OF n example_summary_calories refl refl]
          events_since_extend groq_example advice_request_of_def example_profile_fields)
  note t1 = process_meal_advisor_after_nutrition
              [of ?T ?q example_world example_council example_profile 800]
  note t2 = process_meal_advisor_after_nutrition
              [of ?E ?q example_world example_council example_profile 800]
  from t1 f have a: "fst (process_meal example_council ?T ?q example_profile 800 example_world)
           = Inl (Exception timeout_message)
       \<and> advisor_requests (events_since example_world
           (snd (process_meal example_council ?T ?q example_profile 800 example_world))) = []"
    by blast
  from t2 ev have "\<exists>n. fst (calculate_nutrition ?E ?q example_world) = Inr n \<and>
       [NutritionBegin ?q, NutritionEnd (Inr example_summary)]
         = [NutritionBegin ?q, NutritionEnd (Inr n)]"
    by blast
  then have b: "fst (calculate_nutrition ?E ?q example_world) = Inr example_summary"
    by auto
  from a ev b show ?thesis by blast
qed

section \<open>The remaining calories\<close>



section \<open>All or nothing\<close>

lemma nutrition_of_reply_error:
  "nutrition_of_reply answer = Inl e \<Longrightarrow> \<exists>msg. e = Exception msg"
  by (auto simp add: nutrition_of_reply_def nutrition_except_def
        split: sum.splits raised.splits if_splits)

lemma advisor_result_error:
  "advisor_result agent E history request = Inl e \<Longrightarrow> \<exists>msg. e = Exception msg"
  by (auto simp add: advisor_result_def advice_of_reply_def split: reply.splits if_splits)


lemma process_meal_shape:
  assumes "process_meal council E text user_profile current_total w = (r, w1)"
  shows "\<exists>evs. w1 = w\<lparr>trace := trace w @ evs\<rparr> \<and>
           ((\<exists>msg. r = Inl (Exception msg) \<and> (\<forall>e. step_failed e evs \<longrightarrow> e = Exception msg))
            \<or> (\<exists>result. r = Inr result \<and> (\<forall>e. \<not> step_failed e evs)))"
proof (cases "nutrition_of_reply (nutrition_api E (trace w) text)")
  case (Inl e)
  from nutrition_of_reply_error [OF Inl] obtain msg where m: "e = Exception msg" ..
  from assms have "r = Inl e"
    and "w1 = w\<lparr>trace := trace w @ [NutritionBegin text, NutritionEnd (Inl e)]\<rparr>"
    by (simp_all add: process_meal_nutrition_fails [OF Inl])
  with m show ?thesis by (auto simp add: step_failed_def)
next
  case (Inr n)
  from nutrition_of_reply_calories [OF Inr] obtain cal where c: "n ''calories'' = Some cal" ..
  let ?request = "advice_request_of text user_profile current_total cal"
  let ?a = "advisor_result (advisor_agent council) E
              (trace w @ [NutritionBegin text, NutritionEnd (Inr n)]) ?request"
  note p = process_meal_nutrition_ok [OF Inr c refl refl, of council user_profile current_total]
  from assms p have w1: "w1 = w\<lparr>trace := trace w @
      [NutritionBegin text, NutritionEnd (Inr n), AdvisorBegin ?request, AdvisorEnd ?a]\<rparr>"
    by simp
  show ?thesis
  proof (cases ?a)
    case (Inl e)
    from advisor_result_error [OF Inl] obtain msg where m: "e = Exception msg" ..
    from assms p Inl have "r = Inl e" by simp
    with m w1 Inl show ?thesis by (auto simp add: step_failed_def)
  next
    case (Inr advice)
    from assms p Inr have "r = Inr \<lparr>nutrition = n, ai_advice = advice\<rparr>" by simp
    with w1 Inr show ?thesis by (auto simp add: step_failed_def)
  qed
qed

lemma events_since_same: "events_since w w = []"
  by (simp add: events_since_def)

lemma events_since_store:
  "events_since w (w\<lparr>trace := trace w @ evs, meal_logs := ms\<rparr>) = evs"
  by (simp add: events_since_def)

text \<open>
  C5. In every invocation of \<open>log_meal\<close> in which the Nutrition Step or the Advisor
  Step fails, the handler fails with the status 500 and the message of that failure,
  and the store is as it was: no meal log is added and no user is changed.
\<close>

theorem log_meal_all_or_nothing:
  assumes "log_meal E request_user_id verified_text request_image_url w = (r, w')"
    and "step_failed e (events_since w w')"
  shows "r = Inl (HTTPException 500 (''Meal logging failed: '' @ str_exn e))
       \<and> meal_logs w' = meal_logs w \<and> users w' = users w"
proof (cases "ObjectId request_user_id")
  case None
  with assms show ?thesis
    by (simp add: log_meal_def log_meal_try_def events_since_same step_failed_def)
next
  case (Some user_object_id)
  note oid = Some
  show ?thesis
  proof (cases "users w user_object_id")
    case None
    with assms oid show ?thesis
      by (auto simp add: log_meal_def log_meal_try_def events_since_same step_failed_def)
  next
    case (Some user)
    note usr = Some
    show ?thesis
    proof (cases "get_ai_council (environ E)")
      case (Inl x)
      with assms oid usr show ?thesis
        by (auto simp add: log_meal_def log_meal_try_def Let_def events_since_same
              step_failed_def)
    next
      case (Inr council)
      let ?p = "process_meal council E verified_text
                  \<lparr>health_goal = Some (case health_goal user of
                                          None \<Rightarrow> ''maintain'' | Some h \<Rightarrow> h),
                   daily_calorie_goal = Some (case daily_calorie_goal user of
                                                None \<Rightarrow> 2500 | Some g \<Rightarrow> g)\<rparr>
                  (foldl (\<lambda>total meal. total + get0 (nutrition meal) ''calories'') 0
                     (find_meals w user_object_id (today_start (utcnow E (trace w))))) w"
      obtain pr w1 where p: "?p = (pr, w1)" by (cases ?p)
      from process_meal_shape [OF p] obtain evs where
        w1: "w1 = w\<lparr>trace := trace w @ evs\<rparr>" and
        sh: "(\<exists>msg. pr = Inl (Exception msg) \<and> (\<forall>e. step_failed e evs \<longrightarrow> e = Exception msg))
            \<or> (\<exists>result. pr = Inr result \<and> (\<forall>e. \<not> step_failed e evs))"
        by blast
      from sh show ?thesis
      proof
        assume "\<exists>msg. pr = Inl (Exception msg) \<and> (\<forall>e. step_failed e evs \<longrightarrow> e = Exception msg)"
        then obtain msg where pr: "pr = Inl (Exception msg)"
          and f: "\<forall>e. step_failed e evs \<longrightarrow> e = Exception msg" by blast
        from assms(1) oid usr Inr p pr w1
        have r: "r = Inl (HTTPException 500 (''Meal logging failed: '' @ msg))"
          and w': "w' = w\<lparr>trace := trace w @ evs\<rparr>"
          by (simp_all add: log_meal_def log_meal_try_def Let_def)
        from assms(2) w' f have "e = Exception msg"
          by (simp add: events_since_extend)
        with r w' show ?thesis by simp
      next
        assume "\<exists>result. pr = Inr result \<and> (\<forall>e. \<not> step_failed e evs)"
        then obtain result where pr: "pr = Inr result"
          and f: "\<forall>e. \<not> step_failed e evs" by blast
        from assms(1) oid usr Inr p pr w1
        have "events_since w w' = evs"
          by (auto simp add: log_meal_def log_meal_try_def Let_def events_since_def
                split: sum.splits)
        with assms(2) f show ?thesis by simp
      qed
    qed
  qed
qed

lemma example_user_id: "ObjectId ''507f1f77bcf86cd799439011'' = Some ''507f1f77bcf86cd799439011''"
  by code_simp

lemma example_user:
  "users example_world ''507f1f77bcf86cd799439011'' =
     Some \<lparr>health_goal = Some ''lose_weight'', daily_calorie_goal = Some 2000\<rparr>"
  by (simp add: example_world_def)

lemma example_environ: "get_ai_council (environ (example_externals a b)) = Inr example_council"
  by (simp add: get_ai_council_def VisionAgent_init_def NutritionCalculator_init_def
        AdvisorAgent_init_def getenv_required_def getenv_default_def example_externals_def
        example_council_def lower_def lower_char_def Let_def)

lemma example_today:
  "find_meals example_world ''507f1f77bcf86cd799439011''
     (today_start (utcnow (example_externals a b) (trace example_world))) =
     [stored_meal ''507f1f77bcf86cd799439011'' 1768694400000000 450 25 50 15,
      stored_meal ''507f1f77bcf86cd799439011'' 1768723200000000 320 18 45 8,
      stored_meal ''507f1f77bcf86cd799439011'' 1768739400000000 680 37 65 22]"
  by (simp add: find_meals_def today_start_def example_externals_def example_world_def
        example_meals_def stored_meal_def)

lemma stored_meal_calories:
  "get0 (nutrition (stored_meal user time cal prot carb fat)) ''calories'' = cal"
  by (simp add: stored_meal_def get0_def)

lemma log_meal_timeout_example:
  "log_meal (example_externals TimeoutException (Returns []))
     ''507f1f77bcf86cd799439011'' ''grilled fish with salad, 300g'' None example_world
   = (Inl (HTTPException 500 (''Meal logging failed: '' @ timeout_message)),
      example_world\<lparr>trace := trace example_world @
        [NutritionBegin ''grilled fish with salad, 300g'',
         NutritionEnd (Inl (Exception timeout_message))]\<rparr>)"
proof -
  have n: "nutrition_of_reply
             (nutrition_api (example_externals TimeoutException (Returns []))
                (trace example_world) ''grilled fish with salad, 300g'')
           = Inl (Exception timeout_message)"
    by (simp add: example_externals_def nutrition_of_reply_timeout)
  show ?thesis
    by (simp add: log_meal_def log_meal_try_def example_user_id example_user example_environ
          process_meal_nutrition_fails [OF n] Let_def)
qed

lemma log_meal_advisor_fails_example:
  "log_meal (example_externals (HttpResponse 200 [] (Some [fish, salad])) (Raises ''rate limit''))
     ''507f1f77bcf86cd799439011'' ''grilled fish with salad, 300g'' None example_world
   = (Inl (HTTPException 500 ''Meal logging failed: Advisor Agent failed: rate limit''),
      example_world\<lparr>trace := trace example_world @
        [NutritionBegin ''grilled fish with salad, 300g'',
         NutritionEnd (Inr example_summary),
         AdvisorBegin (AdviceRequest ''lose_weight'' ''grilled fish with salad, 300g''
                         (1751 / 5) (999 / 5)),
         AdvisorEnd (Inl (Exception ''Advisor Agent failed: rate limit''))]\<rparr>)"
proof -
  let ?E = "example_externals (HttpResponse 200 [] (Some [fish, salad])) (Raises ''rate limit'')"
  have n: "nutrition_of_reply
             (nutrition_api ?E (trace example_world) ''grilled fish with salad, 300g'')
           = Inr example_summary"
    by (simp add: example_externals_def nutrition_of_reply_example)
  have a: "\<And>h request. advisor_result (advisor_agent example_council) ?E h request
             = Inl (Exception ''Advisor Agent failed: rate limit'')"
    by (simp add: advisor_result_def example_council_def example_externals_def
          advice_of_reply_def)
  show ?thesis
    by (simp add: log_meal_def log_meal_try_def example_user_id example_user example_environ
          example_today stored_meal_calories
          process_meal_nutrition_ok [OF n example_summary_calories refl refl] a
          advice_request_of_def Let_def)
qed

theorem log_meal_all_or_nothing_witness:
  "step_failed (Exception timeout_message)
     [NutritionBegin ''grilled fish with salad, 300g'',
      NutritionEnd (Inl (Exception timeout_message))]
   \<and> fst (log_meal (example_externals TimeoutException (Returns []))
            ''507f1f77bcf86cd799439011'' ''grilled fish with salad, 300g'' None example_world)
       = Inl (HTTPException 500 (''Meal logging failed: '' @ timeout_message))
   \<and> meal_logs (snd (log_meal (example_externals TimeoutException (Returns []))
            ''507f1f77bcf86cd799439011'' ''grilled fish with salad, 300g'' None example_world))
       = example_meals
   \<and> step_failed (Exception ''Advisor Agent failed: rate limit'')
        [NutritionBegin ''grilled fish with salad, 300g'',
         NutritionEnd (Inr example_summary),
         AdvisorBegin (AdviceRequest ''lose_weight'' ''grilled fish with salad, 300g''
                         (1751 / 5) (999 / 5)),
         AdvisorEnd (Inl (Exception ''Advisor Agent failed: rate limit''))]
   \<and> meal_logs (snd (log_meal
            (example_externals (HttpResponse 200 [] (Some [fish, salad])) (Raises ''rate limit''))
            ''507f1f77bcf86cd799439011'' ''grilled fish with salad, 300g'' None example_world))
       = example_meals"
proof -
  have s1: "step_failed (Exception timeout_message)
     (events_since example_world (example_world\<lparr>trace := trace example_world @
        [NutritionBegin ''grilled fish with salad, 300g'',
         NutritionEnd (Inl (Exception timeout_message))]\<rparr>))"
    by (simp add: events_since_extend step_failed_def)
  have s2: "step_failed (Exception ''Advisor Agent failed: rate limit'')
     (events_since example_world (example_world\<lparr>trace := trace example_world @
        [NutritionBegin ''grilled fish with salad, 300g'',
         NutritionEnd (Inr example_summary),
         AdvisorBegin (AdviceRequest ''lose_weight'' ''grilled fish with salad, 300g''
                         (1751 / 5) (999 / 5)),
         AdvisorEnd (Inl (Exception ''Advisor Agent failed: rate limit''))]\<rparr>))"
    by (simp add: events_since_extend step_failed_def)
  note t1 = log_meal_all_or_nothing [OF log_meal_timeout_example s1]
  note t2 = log_meal_all_or_nothing [OF log_meal_advisor_fails_example s2]
  have m: "meal_logs example_world = example_meals" by (simp add: example_world_def)
  from t1 t2 s1 s2 show ?thesis
    by (simp add: log_meal_timeout_example log_meal_advisor_fails_example m
          events_since_extend)
qed

section \<open>Non-negative summaries\<close>

lemma round_half_even_nonneg: "0 \<le> x \<Longrightarrow> 0 \<le> round_half_even x"
  by (simp add: round_half_even_def Let_def)

lemma round1_nonneg: "0 \<le> x \<Longrightarrow> 0 \<le> round1 x"
  by (simp add: round1_def round_half_even_nonneg)

lemma py_sum_nonneg: "list_all (\<lambda>item. 0 \<le> f item) items \<Longrightarrow> 0 \<le> py_sum (map f items)"
  by (induction items) (simp_all add: py_sum_sum_list)

lemma item_nonneg_fields:
  assumes "list_all item_nonneg items"
  shows "list_all (\<lambda>item. 0 \<le> get0 item ''calories'') items"
    and "list_all (\<lambda>item. 0 \<le> get0 item ''protein_g'') items"
    and "list_all (\<lambda>item. 0 \<le> get0 item ''carbohydrates_total_g'') items"
    and "list_all (\<lambda>item. 0 \<le> get0 item ''fat_total_g'') items"
  using assms by (simp_all add: item_nonneg_def list_all_iff)

lemma get0_upd: "get0 (m(k \<mapsto> v)) k' = (if k' = k then v else get0 m k')"
  by (simp add: get0_def)

lemma nutrition_of_reply_Inr:
  "nutrition_of_reply answer = Inr n \<Longrightarrow>
   \<exists>body items. answer = HttpResponse 200 body (Some items) \<and> items \<noteq> []"
  by (cases answer)
     (auto simp add: nutrition_of_reply_def nutrition_try_def Let_def
        split: if_splits option.splits sum.splits)

lemma nutrition_of_reply_nonneg:
  assumes "reply_nonneg answer" and "nutrition_of_reply answer = Inr n"
  shows "summary_nonneg n"
proof -
  from nutrition_of_reply_Inr [OF assms(2)] obtain body items
    where r: "answer = HttpResponse 200 body (Some items)" and ne: "items \<noteq> []" by blast
  from assms(1) r have a: "list_all item_nonneg items"
    by (simp add: reply_nonneg_def)
  from assms(2) r nutrition_of_reply_items [OF ne, of body]
  have n: "n = [''calories'' \<mapsto> round1 (py_sum (map (\<lambda>item. get0 item ''calories'') items)),
        ''protein'' \<mapsto> round1 (py_sum (map (\<lambda>item. get0 item ''protein_g'') items)),
        ''carbs'' \<mapsto> round1 (py_sum (map (\<lambda>item. get0 item ''carbohydrates_total_g'') items)),
        ''fats'' \<mapsto> round1 (py_sum (map (\<lambda>item. get0 item ''fat_total_g'') items))]"
    by simp
  show ?thesis
    by (simp add: n summary_nonneg_def get0_upd round1_nonneg py_sum_nonneg
          item_nonneg_fields [OF a])
qed

lemma process_meal_result:
  assumes "process_meal council E text user_profile current_total w = (Inr result, w1)"
  shows "nutrition_of_reply (nutrition_api E (trace w) text) = Inr (nutrition result)
       \<and> meal_logs w1 = meal_logs w \<and> users w1 = users w"
proof (cases "nutrition_of_reply (nutrition_api E (trace w) text)")
  case (Inl e)
  with assms show ?thesis by (simp add: process_meal_nutrition_fails)
next
  case (Inr n)
  from nutrition_of_reply_calories [OF Inr] obtain cal where c: "n ''calories'' = Some cal" ..
  note p = process_meal_nutrition_ok [OF Inr c refl refl, of council user_profile current_total]
  from assms p Inr show ?thesis
    by (auto split: sum.splits)
qed

lemma log_meal_store:
  assumes "log_meal E request_user_id verified_text request_image_url w = (r, w')"
  shows "meal_logs w' = meal_logs w
       \<or> (\<exists>meal. nutrition_of_reply (nutrition_api E (trace w) verified_text)
                     = Inr (nutrition meal)
                 \<and> meal_logs w' = meal_logs w @ [meal])"
proof (cases "ObjectId request_user_id")
  case None
  with assms show ?thesis by (simp add: log_meal_def log_meal_try_def)
next
  case (Some user_object_id)
  note oid = Some
  show ?thesis
  proof (cases "users w user_object_id")
    case None
    with assms oid show ?thesis by (auto simp add: log_meal_def log_meal_try_def)
  next
    case (Some user)
    note usr = Some
    show ?thesis
    proof (cases "get_ai_council (environ E)")
      case (Inl x)
      with assms oid usr show ?thesis
        by (auto simp add: log_meal_def log_meal_try_def Let_def)
    next
      case (Inr council)
      let ?p = "process_meal council E verified_text
                  \<lparr>health_goal = Some (case health_goal user of
                                          None \<Rightarrow> ''maintain'' | Some h \<Rightarrow> h),
                   daily_calorie_goal = Some (case daily_calorie_goal user of
                                                None \<Rightarrow> 2500 | Some g \<Rightarrow> g)\<rparr>
                  (foldl (\<lambda>total meal. total + get0 (nutrition meal) ''calories'') 0
                     (find_meals w user_object_id (today_start (utcnow E (trace w))))) w"
      obtain pr w1 where p: "?p = (pr, w1)" by (cases ?p)
      show ?thesis
      proof (cases pr)
        case (Inl e)
        from process_meal_shape [OF p] obtain evs where "w1 = w\<lparr>trace := trace w @ evs\<rparr>"
          by blast
        with assms oid usr Inr p Inl show ?thesis
          by (auto simp add: log_meal_def log_meal_try_def Let_def)
      next
        case (Inr result)
        from process_meal_result [OF p [unfolded Inr]]
        have n: "nutrition_of_reply (nutrition_api E (trace w) verified_text)
                   = Inr (nutrition result)"
          and m: "meal_logs w1 = meal_logs w" by simp_all
        from assms oid usr \<open>get_ai_council (environ E) = Inr council\<close> p Inr
        have "meal_logs w' = meal_logs w1 @
                [\<lparr>nutrition = nutrition result, ai_advice = ai_advice result,
                  user_id = user_object_id, timestamp = utcnow E (trace w1),
                  dish_name = verified_text, image_url = request_image_url\<rparr>]"
          by (auto simp add: log_meal_def log_meal_try_def Let_def split: sum.splits)
        with n m show ?thesis by auto
      qed
    qed
  qed
qed

lemma example_store_nonneg: "store_nonneg example_world"
  by (simp add: store_nonneg_def example_world_def example_meals_def stored_meal_def
        summary_nonneg_def get0_upd)

lemma example_reply_nonneg: "reply_nonneg (HttpResponse 200 [] (Some [fish, salad]))"
  by (simp add: reply_nonneg_def item_nonneg_def fish_def salad_def get0_def)

lemma example_NutritionData: "NutritionData example_summary = Inr example_summary"
  by (simp add: NutritionData_def example_summary_def get0_upd)

lemma example_clock:
  "utcnow (example_externals a b) h = 1768757400000000 + int (length h)"
  "new_object_id (example_externals a b) h = ''507f191e810c19729de860ea''"
  by (simp_all add: example_externals_def)

lemma example_today_at:
  "find_meals example_world ''507f1f77bcf86cd799439011'' (today_start 1768757400000000) =
     [stored_meal ''507f1f77bcf86cd799439011'' 1768694400000000 450 25 50 15,
      stored_meal ''507f1f77bcf86cd799439011'' 1768723200000000 320 18 45 8,
      stored_meal ''507f1f77bcf86cd799439011'' 1768739400000000 680 37 65 22]"
  by (simp add: find_meals_def today_start_def example_world_def example_meals_def
        stored_meal_def)

lemma log_meal_example:
  "log_meal (example_externals (HttpResponse 200 [] (Some [fish, salad]))
               (Returns ''Eat light tonight.''))
     ''507f1f77bcf86cd799439011'' ''grilled fish with salad, 300g'' None example_world
   = (Inr (LogMealResponse ''507f191e810c19729de860ea'' ''grilled fish with salad, 300g''
             example_summary ''Eat light tonight.'' 1768757400000004),
      example_world
        \<lparr>trace := trace example_world @
           [NutritionBegin ''grilled fish with salad, 300g'',
            NutritionEnd (Inr example_summary),
            AdvisorBegin (AdviceRequest ''lose_weight'' ''grilled fish with salad, 300g''
                            (1751 / 5) (999 / 5)),
            AdvisorEnd (Inr ''Eat light tonight.'')],
         meal_logs := meal_logs example_world @
           [\<lparr>nutrition = example_summary, ai_advice = ''Eat light tonight.'',
             user_id = ''507f1f77bcf86cd799439011'', timestamp = 1768757400000004,
             dish_name = ''grilled fish with salad, 300g'', image_url = None\<rparr>]\<rparr>)"
proof -
  let ?E = "example_externals (HttpResponse 200 [] (Some [fish, salad]))
              (Returns ''Eat light tonight.'')"
  have n: "nutrition_of_reply
             (nutrition_api ?E (trace example_world) ''grilled fish with salad, 300g'')
           = Inr example_summary"
    by (simp add: example_externals_def nutrition_of_reply_example)
  show ?thesis
    by (simp add: log_meal_def log_meal_try_def example_user_id example_user example_environ
          example_today example_today_at stored_meal_calories
          process_meal_nutrition_ok [OF n example_summary_calories refl refl] groq_example
          advice_request_of_def Let_def example_NutritionData example_clock example_world_trace)
qed

text \<open>
  C6, as stated, fails: a provider item with negative calories gives a summary with
  negative calories, and \<open>log_meal\<close> stores it.
\<close>

theorem summary_nonneg_counterexample:
  "fst (calculate_nutrition
          (example_externals (HttpResponse 200 [] (Some [refund])) (Returns ''Eat light tonight.''))
          ''refund'' example_world)
     = Inr [''calories'' \<mapsto> - 50, ''protein'' \<mapsto> 5, ''carbs'' \<mapsto> 0, ''fats'' \<mapsto> 0]
   \<and> \<not> summary_nonneg [''calories'' \<mapsto> - 50, ''protein'' \<mapsto> 5, ''carbs'' \<mapsto> 0, ''fats'' \<mapsto> 0]
   \<and> store_nonneg example_world
   \<and> \<not> store_nonneg
         (snd (log_meal
                 (example_externals (HttpResponse 200 [] (Some [refund]))
                    (Returns ''Eat light tonight.''))
                 ''507f1f77bcf86cd799439011'' ''refund'' None example_world))"
proof -
  let ?E = "example_externals (HttpResponse 200 [] (Some [refund])) (Returns ''Eat light tonight.'')"
  let ?n = "[''calories'' \<mapsto> - 50, ''protein'' \<mapsto> 5, ''carbs'' \<mapsto> 0, ''fats'' \<mapsto> (0 :: rat)]"
  have r: "round1 (- 50) = - 50" "round1 5 = 5" "round1 0 = 0" by code_simp+
  have n: "nutrition_of_reply (nutrition_api ?E (trace example_world) ''refund'') = Inr ?n"
    by (simp add: example_externals_def nutrition_of_reply_items py_sum_sum_list refund_def
          get0_def r)
  have a: "fst (calculate_nutrition ?E ''refund'' example_world) = Inr ?n"
    by (simp add: calculate_nutrition_eq n)
  have b: "\<not> summary_nonneg ?n"
    by (simp add: summary_nonneg_def get0_upd)
  have c: "?n ''calories'' = Some (- 50)" by simp
  have v: "NutritionData ?n = Inl (ValidationError ''validation error for NutritionData'')"
    by (simp add: NutritionData_def)
  have "meal_logs (snd (log_meal ?E ''507f1f77bcf86cd799439011'' ''refund'' None example_world))
          = meal_logs example_world @
              [\<lparr>nutrition = ?n, ai_advice = ''Eat light tonight.'',
                user_id = ''507f1f77bcf86cd799439011'', timestamp = 1768757400000004,
                dish_name = ''refund'', image_url = None\<rparr>]"
    by (simp add: log_meal_def log_meal_try_def example_user_id example_user example_environ
          example_today example_today_at stored_meal_calories
          process_meal_nutrition_ok [OF n c refl refl] groq_example
          advice_request_of_def Let_def v example_clock example_world_trace)
  then have d: "\<not> store_nonneg
         (snd (log_meal ?E ''507f1f77bcf86cd799439011'' ''refund'' None example_world))"
    using b by (simp add: store_nonneg_def)
  from a b d example_store_nonneg show ?thesis by blast
qed

text \<open>
  C6, amended. When every item of the provider's response has non-negative calories,
  protein, carbohydrates and fat (an absent field counts as 0), the summary that the
  Nutrition Step produces has four non-negative fields, and a store whose summaries
  are all non-negative still is so after \<open>log_meal\<close>.
\<close>

theorem summary_nonneg_of_nonneg_items:
  assumes "reply_nonneg (nutrition_api E (trace w) verified_text)"
  shows "(\<forall>n. fst (calculate_nutrition E verified_text w) = Inr n \<longrightarrow> summary_nonneg n)
       \<and> (store_nonneg w \<longrightarrow>
            store_nonneg (snd (log_meal E request_user_id verified_text request_image_url w)))"
proof (intro conjI allI impI)
  fix n assume "fst (calculate_nutrition E verified_text w) = Inr n"
  then have "nutrition_of_reply (nutrition_api E (trace w) verified_text) = Inr n"
    by (simp add: calculate_nutrition_eq)
  with assms show "summary_nonneg n" by (rule nutrition_of_reply_nonneg)
next
  assume s: "store_nonneg w"
  obtain r w' where l: "log_meal E request_user_id verified_text request_image_url w = (r, w')"
    by (cases "log_meal E request_user_id verified_text request_image_url w")
  from log_meal_store [OF l] have "store_nonneg w'"
  proof
    assume "meal_logs w' = meal_logs w"
    with s show ?thesis by (simp add: store_nonneg_def)
  next
    assume "\<exists>meal. nutrition_of_reply (nutrition_api E (trace w) verified_text)
                     = Inr (nutrition meal)
                 \<and> meal_logs w' = meal_logs w @ [meal]"
    then obtain meal where
      n: "nutrition_of_reply (nutrition_api E (trace w) verified_text) = Inr (nutrition meal)"
      and m: "meal_logs w' = meal_logs w @ [meal]" by blast
    from nutrition_of_reply_nonneg [OF assms n] s m show ?thesis
      by (simp add: store_nonneg_def)
  qed
  with l show "store_nonneg (snd (log_meal E request_user_id verified_text request_image_url w))"
    by simp
qed

theorem summary_nonneg_of_nonneg_items_witness:
  "reply_nonneg (HttpResponse 200 [] (Some [fish, salad]))
   \<and> fst (calculate_nutrition
            (example_externals (HttpResponse 200 [] (Some [fish, salad]))
               (Returns ''Eat light tonight.''))
            ''grilled fish with salad, 300g'' example_world) = Inr example_summary
   \<and> summary_nonneg example_summary
   \<and> store_nonneg example_world
   \<and> store_nonneg
        (example_world
           \<lparr>trace := trace example_world @
              [NutritionBegin ''grilled fish with salad, 300g'',
               NutritionEnd (Inr example_summary),
               AdvisorBegin (AdviceRequest ''lose_weight'' ''grilled fish with salad, 300g''
                               (1751 / 5) (999 / 5)),
               AdvisorEnd (Inr ''Eat light tonight.'')],
            meal_logs := meal_logs example_world @
              [\<lparr>nutrition = example_summary, ai_advice = ''Eat light tonight.'',
                user_id = ''507f1f77bcf86cd799439011'', timestamp = 1768757400000004,
                dish_name = ''grilled fish with salad, 300g'', image_url = None\<rparr>]\<rparr>)"
proof -
  let ?E = "example_externals (HttpResponse 200 [] (Some [fish, salad]))
              (Returns ''Eat light tonight.'')"
  have h: "reply_nonneg (nutrition_api ?E (trace example_world) ''grilled fish with salad, 300g'')"
    by (simp add: example_externals_def example_reply_nonneg)
  have c: "fst (calculate_nutrition ?E ''grilled fish with salad, 300g'' example_world)
             = Inr example_summary"
    by (simp add: calculate_nutrition_eq example_externals_def nutrition_of_reply_example)
  note t = summary_nonneg_of_nonneg_items
             [OF h, of "''507f1f77bcf86cd799439011''" None]
  from t c have "summary_nonneg example_summary" by blast
  moreover from t example_store_nonneg
  have "store_nonneg (snd (log_meal ?E ''507f1f77bcf86cd799439011''
                             ''grilled fish with salad, 300g'' None example_world))"
    by blast
  ultimately show ?thesis
    using c example_reply_nonneg example_store_nonneg by (simp add: log_meal_example)
qed

section \<open>The dashboard\<close>






section \<open>The choice of the advisor provider\<close>

lemma lower_simple:
  "lower ''openrouter'' = ''openrouter''" "lower ''groq'' = ''groq''"
  "lower ''azure'' = ''azure''" "lower ''OpenRouter'' = ''openrouter''"
  by code_simp+

text \<open>
  C8, as stated, fails: with OpenRouter chosen and no model configured the agent gets
  the model name \<open>anthropic/claude-3.5-sonnet\<close>; a provider name that is neither of
  the two is accepted and served by Groq, whose model name is fixed whatever the
  configuration says.
\<close>

theorem AdvisorAgent_init_counterexample:
  "AdvisorAgent_init [''ADVISOR_PROVIDER'' \<mapsto> ''openrouter'', ''OPENROUTER_API_KEY'' \<mapsto> ''k'']
     = Inr \<lparr>provider = ''openrouter'', api_key = ''k'',
            model_name = ''anthropic/claude-3.5-sonnet''\<rparr>
   \<and> AdvisorAgent_init [''ADVISOR_PROVIDER'' \<mapsto> ''azure'', ''GROQ_API_KEY'' \<mapsto> ''q'',
                         ''GROQ_MODEL'' \<mapsto> ''mixtral-8x7b'']
     = Inr \<lparr>provider = ''azure'', api_key = ''q'', model_name = ''llama3-70b-8192''\<rparr>"
  by (simp add: AdvisorAgent_init_def getenv_default_def getenv_required_def lower_simple)

text \<open>
  C8, amended. The provider name is the value of \<open>ADVISOR_PROVIDER\<close> in lower case,
  \<open>groq\<close> when the variable is unset: \<open>openrouter\<close> selects OpenRouter and every other
  name selects Groq. Construction succeeds exactly when the credential of the selected
  provider is set and not empty; the agent then holds the name and that credential,
  and \<open>generate_advice\<close> asks OpenRouter or Groq by the name the agent holds, without
  reading the environment again. The model name of OpenRouter comes from
  \<open>OPENROUTER_MODEL\<close>, with \<open>anthropic/claude-3.5-sonnet\<close> when unset; the model name
  of Groq is always \<open>llama3-70b-8192\<close>.
\<close>

theorem AdvisorAgent_init_selection:
  assumes "choice = lower (case env ''ADVISOR_PROVIDER'' of None \<Rightarrow> ''groq'' | Some v \<Rightarrow> v)"
    and "credential =
           env (if choice = ''openrouter'' then ''OPENROUTER_API_KEY'' else ''GROQ_API_KEY'')"
  shows "(case AdvisorAgent_init env of
            Inl e \<Rightarrow> credential = None \<or> credential = Some []
          | Inr agent \<Rightarrow>
              provider agent = choice \<and> credential = Some (api_key agent) \<and> api_key agent \<noteq> []
              \<and> model_name agent =
                  (if choice = ''openrouter''
                   then (case env ''OPENROUTER_MODEL'' of
                           None \<Rightarrow> ''anthropic/claude-3.5-sonnet'' | Some m \<Rightarrow> m)
                   else ''llama3-70b-8192''))
       \<and> generate_advice agent (E\<lparr>environ := env'\<rparr>) request w = generate_advice agent E request w
       \<and> fst (generate_advice agent E request w) =
           advice_of_reply
             (if provider agent = ''openrouter''
              then openrouter_api E (trace w) (api_key agent) (model_name agent) request
              else groq_model E (trace w) request)"
proof (intro conjI)
  show "case AdvisorAgent_init env of
            Inl e \<Rightarrow> credential = None \<or> credential = Some []
          | Inr agent \<Rightarrow>
              provider agent = choice \<and> credential = Some (api_key agent) \<and> api_key agent \<noteq> []
              \<and> model_name agent =
                  (if choice = ''openrouter''
                   then (case env ''OPENROUTER_MODEL'' of
                           None \<Rightarrow> ''anthropic/claude-3.5-sonnet'' | Some m \<Rightarrow> m)
                   else ''llama3-70b-8192'')"
    using assms
    by (auto simp add: AdvisorAgent_init_def getenv_default_def getenv_required_def Let_def
          split: option.splits sum.splits if_splits)
next
  show "generate_advice agent (E\<lparr>environ := env'\<rparr>) request w = generate_advice agent E request w"
    by (simp add: generate_advice_def)
next
  show "fst (generate_advice agent E request w) =
           advice_of_reply
             (if provider agent = ''openrouter''
              then openrouter_api E (trace w) (api_key agent) (model_name agent) request
              else groq_model E (trace w) request)"
    by (simp add: generate_advice_eq advisor_result_def)
qed

theorem AdvisorAgent_init_selection_witness:
  "(case AdvisorAgent_init [''GROQ_API_KEY'' \<mapsto> ''q''] of
      Inl e \<Rightarrow> False
    | Inr agent \<Rightarrow> provider agent = ''groq'' \<and> api_key agent = ''q''
                   \<and> model_name agent = ''llama3-70b-8192'')
   \<and> (case AdvisorAgent_init [''ADVISOR_PROVIDER'' \<mapsto> ''OpenRouter'',
                               ''OPENROUTER_API_KEY'' \<mapsto> ''k'',
                               ''OPENROUTER_MODEL'' \<mapsto> ''meta-llama/llama-3-70b''] of
      Inl e \<Rightarrow> False
    | Inr agent \<Rightarrow> provider agent = ''openrouter'' \<and> api_key agent = ''k''
                   \<and> model_name agent = ''meta-llama/llama-3-70b'')
   \<and> (case AdvisorAgent_init [''ADVISOR_PROVIDER'' \<mapsto> ''openrouter''] of
      Inl e \<Rightarrow> True
    | Inr agent \<Rightarrow> False)"
proof -
  let ?e1 = "[''GROQ_API_KEY'' \<mapsto> ''q'']"
  let ?e2 = "[''ADVISOR_PROVIDER'' \<mapsto> ''OpenRouter'', ''OPENROUTER_API_KEY'' \<mapsto> ''k'',
              ''OPENROUTER_MODEL'' \<mapsto> ''meta-llama/llama-3-70b'']"
  let ?e3 = "[''ADVISOR_PROVIDER'' \<mapsto> ''openrouter'']"
  note t1 = AdvisorAgent_init_selection [of "''groq''" ?e1 "Some ''q''"]
  note t2 = AdvisorAgent_init_selection [of "''openrouter''" ?e2 "Some ''k''"]
  note t3 = AdvisorAgent_init_selection [of "''openrouter''" ?e3 None]
  have a: "case AdvisorAgent_init ?e1 of
      Inl e \<Rightarrow> False
    | Inr agent \<Rightarrow> provider agent = ''groq'' \<and> api_key agent = ''q''
                   \<and> model_name agent = ''llama3-70b-8192''"
    using t1 by (cases "AdvisorAgent_init ?e1") (simp_all add: lower_simple)
  have b: "case AdvisorAgent_init ?e2 of
      Inl e \<Rightarrow> False
    | Inr agent \<Rightarrow> provider agent = ''openrouter'' \<and> api_key agent = ''k''
                   \<and> model_name agent = ''meta-llama/llama-3-70b''"
    using t2 by (cases "AdvisorAgent_init ?e2") (simp_all add: lower_simple)
  have c: "case AdvisorAgent_init ?e3 of Inl e \<Rightarrow> True | Inr agent \<Rightarrow> False"
    using t3 by (cases "AdvisorAgent_init ?e3") (simp_all add: lower_simple)
  from a b c show ?thesis by blast
qed

section \<open>Analysing an image\<close>

lemma VisionAgent_analyze_image_eq:
  "VisionAgent_analyze_image E image_bytes w =
     (let r = (case vision_model E (trace w) image_bytes of
                 Raises msg \<Rightarrow> Inl (Exception (''Vision Agent failed: '' @ msg))
               | Returns answer \<Rightarrow> Inr (strip answer))
      in (r, w\<lparr>trace := trace w @ [VisionBegin image_bytes, VisionEnd r]\<rparr>))"
  by (simp add: VisionAgent_analyze_image_def emit_def Let_def)

lemma analyze_image_store:
  "meal_logs (snd (analyze_image E upload w)) = meal_logs w
   \<and> users (snd (analyze_image E upload w)) = users w"
  by (simp add: analyze_image_def analyze_image_try_def AICouncil_analyze_image_def
        VisionAgent_analyze_image_eq Let_def split: option.splits sum.splits prod.splits)

lemma analyze_image_result:
  assumes "\<forall>h h'. vision_model E h (content upload) = vision_model E h' (content upload)"
  shows "fst (analyze_image E upload w') = fst (analyze_image E upload w)"
proof -
  from assms have "vision_model E (trace w') (content upload)
                     = vision_model E (trace w) (content upload)" by blast
  then show ?thesis
    by (simp add: analyze_image_def analyze_image_try_def AICouncil_analyze_image_def
          VisionAgent_analyze_image_eq Let_def split: option.splits sum.splits prod.splits)
qed

text \<open>
  C9. Analysing an image leaves the store as it was, in the handler and in the
  orchestrator: the meal logs and the users are unchanged. When the answer of the
  vision provider to these image bytes does not depend on the calls made before, a
  second analysis of the same upload, after the first, returns what the first returned.
\<close>

theorem analyze_image_no_persistence:
  "meal_logs (snd (analyze_image E upload w)) = meal_logs w
   \<and> users (snd (analyze_image E upload w)) = users w
   \<and> meal_logs (snd (AICouncil_analyze_image council E image_bytes w)) = meal_logs w
   \<and> users (snd (AICouncil_analyze_image council E image_bytes w)) = users w
   \<and> ((\<forall>h h'. vision_model E h (content upload) = vision_model E h' (content upload)) \<longrightarrow>
        fst (analyze_image E upload (snd (analyze_image E upload w)))
          = fst (analyze_image E upload w))
   \<and> ((\<forall>h h'. vision_model E h image_bytes = vision_model E h' image_bytes) \<longrightarrow>
        fst (AICouncil_analyze_image council E image_bytes
               (snd (AICouncil_analyze_image council E image_bytes w)))
          = fst (AICouncil_analyze_image council E image_bytes w))"
proof (intro conjI impI)
  show "meal_logs (snd (analyze_image E upload w)) = meal_logs w"
    and "users (snd (analyze_image E upload w)) = users w"
    by (simp_all add: analyze_image_store)
  show "meal_logs (snd (AICouncil_analyze_image council E image_bytes w)) = meal_logs w"
    and "users (snd (AICouncil_analyze_image council E image_bytes w)) = users w"
    by (simp_all add: AICouncil_analyze_image_def VisionAgent_analyze_image_eq Let_def)
next
  assume "\<forall>h h'. vision_model E h (content upload) = vision_model E h' (content upload)"
  then show "fst (analyze_image E upload (snd (analyze_image E upload w)))
          = fst (analyze_image E upload w)"
    by (rule analyze_image_result)
next
  assume "\<forall>h h'. vision_model E h image_bytes = vision_model E h' image_bytes"
  then have "vision_model E (trace w @ [VisionBegin image_bytes,
                 VisionEnd (case vision_model E (trace w) image_bytes of
                 Raises msg \<Rightarrow> Inl (Exception (''Vision Agent failed: '' @ msg))
               | Returns answer \<Rightarrow> Inr (strip answer))]) image_bytes
             = vision_model E (trace w) image_bytes"
    by blast
  then show "fst (AICouncil_analyze_image council E image_bytes
               (snd (AICouncil_analyze_image council E image_bytes w)))
          = fst (AICouncil_analyze_image council E image_bytes w)"
    by (simp add: AICouncil_analyze_image_def VisionAgent_analyze_image_eq Let_def)
qed

lemma strip_lablabi: "strip ''Bowl of Lablabi, approx 400g'' = ''Bowl of Lablabi, approx 400g''"
  by code_simp

lemma analyze_image_example:
  "fst (analyze_image (example_externals a b) example_upload example_world)
     = Inr ''Bowl of Lablabi, approx 400g''"
proof -
  have v: "vision_model (example_externals a b) h bs = Returns ''Bowl of Lablabi, approx 400g''"
    for h bs by (simp add: example_externals_def)
  have s: "startswith ''image/jpeg'' ''image/''" by (simp add: startswith_def)
  show ?thesis
    by (simp add: analyze_image_def analyze_image_try_def AICouncil_analyze_image_def
          VisionAgent_analyze_image_eq Let_def example_upload_def example_environ v s
          strip_lablabi)
qed

theorem analyze_image_no_persistence_witness:
  "fst (analyze_image (example_externals TimeoutException (Returns [])) example_upload
          example_world) = Inr ''Bowl of Lablabi, approx 400g''
   \<and> fst (analyze_image (example_externals TimeoutException (Returns [])) example_upload
            (snd (analyze_image (example_externals TimeoutException (Returns []))
                    example_upload example_world)))
       = Inr ''Bowl of Lablabi, approx 400g''
   \<and> meal_logs (snd (analyze_image (example_externals TimeoutException (Returns []))
                        example_upload example_world)) = example_meals"
proof -
  let ?E = "example_externals TimeoutException (Returns [])"
  have d: "\<forall>h h'. vision_model ?E h (content example_upload)
                   = vision_model ?E h' (content example_upload)"
    by (simp add: example_externals_def)
  have m: "meal_logs example_world = example_meals" by (simp add: example_world_def)
  note t = analyze_image_no_persistence [of ?E example_upload example_world]
  from t d have "fst (analyze_image ?E example_upload
                        (snd (analyze_image ?E example_upload example_world)))
                   = fst (analyze_image ?E example_upload example_world)"
    by blast
  moreover from t m have "meal_logs (snd (analyze_image ?E example_upload example_world))
                            = example_meals"
    by simp
  ultimately show ?thesis by (simp add: analyze_image_example)
qed

section \<open>Defaults for the goals\<close>









section \<open>No items recognized, in the step and at the boundary\<close>





end
